theory Spec2Isabelle
  imports Main "HOL-Library.Char_ord" "HOL-Library.List_Lexorder" "HOL-Library.Multiset"
begin

section \<open>Python values and the operations main.py applies to them\<close>

text \<open>
  Every value main.py handles comes out of a decoded JSON body: the responses of the
  discovery clients and of the API-key endpoint. A dict is an association list read
  with \<open>map_of\<close>; strings are byte strings (UTF-8), whose lexicographic order is the
  order of Python's code points. Floats do not occur in the fields the program reads
  and are not modelled.
\<close>

datatype json =
    JNull
  | JBool bool
  | JNum int
  | JStr string
  | JList "json list"
  | JObj "(string \<times> json) list"

text \<open>
  The exceptions of the run. \<open>External\<close> is anything raised by a collaborator (an
  HttpError of a listing call, a failed subprocess, a failed client construction).
\<close>

datatype py_error =
    KeyError
  | IndexError
  | TypeError
  | AttributeError
  | External string

definition bind_e :: "py_error + 'a \<Rightarrow> ('a \<Rightarrow> py_error + 'b) \<Rightarrow> py_error + 'b" where
  "bind_e r f = (case r of Inl e \<Rightarrow> Inl e | Inr x \<Rightarrow> f x)"

text \<open>Evaluating a list display left to right: the first raise wins.\<close>

fun sequence_e :: "(py_error + 'a) list \<Rightarrow> py_error + 'a list" where
  "sequence_e [] = Inr []"
| "sequence_e (Inl e # rs) = Inl e"
| "sequence_e (Inr x # rs) = (case sequence_e rs of Inl e \<Rightarrow> Inl e | Inr xs \<Rightarrow> Inr (x # xs))"

text \<open>\<^verbatim>\<open>v[k]\<close> for a string literal \<open>k\<close>.\<close>

fun subscript_key :: "json \<Rightarrow> string \<Rightarrow> py_error + json" where
  "subscript_key (JObj kvs) k = (case map_of kvs k of None \<Rightarrow> Inl KeyError | Some v \<Rightarrow> Inr v)"
| "subscript_key v k = Inl TypeError"

text \<open>
  \<^verbatim>\<open>v[i]\<close> for a literal index \<open>i \<ge> 0\<close>. A decoded dict has string keys only, so
  an integer subscript on it is a KeyError; a string yields its \<open>i\<close>-th character.
\<close>

fun subscript_idx :: "json \<Rightarrow> nat \<Rightarrow> py_error + json" where
  "subscript_idx (JList xs) i = (if i < length xs then Inr (xs ! i) else Inl IndexError)"
| "subscript_idx (JObj kvs) i = Inl KeyError"
| "subscript_idx (JStr s) i = (if i < length s then Inr (JStr [s ! i]) else Inl IndexError)"
| "subscript_idx v i = Inl TypeError"

text \<open>Truth value of \<^verbatim>\<open>if v:\<close>.\<close>

fun truthy :: "json \<Rightarrow> bool" where
  "truthy JNull = False"
| "truthy (JBool b) = b"
| "truthy (JNum n) = (n \<noteq> 0)"
| "truthy (JStr s) = (s \<noteq> [])"
| "truthy (JList xs) = (xs \<noteq> [])"
| "truthy (JObj kvs) = (kvs \<noteq> [])"

fun contains_str :: "string \<Rightarrow> string \<Rightarrow> bool" where
  "contains_str sub [] = (sub = [])"
| "contains_str sub (c # cs) = (take (length sub) (c # cs) = sub \<or> contains_str sub cs)"

text \<open>\<^verbatim>\<open>k in v\<close> for a string literal \<open>k\<close>.\<close>

fun py_in :: "string \<Rightarrow> json \<Rightarrow> py_error + bool" where
  "py_in k (JObj kvs) = Inr (map_of kvs k \<noteq> None)"
| "py_in k (JList xs) = Inr (JStr k \<in> set xs)"
| "py_in k (JStr s) = Inr (contains_str k s)"
| "py_in k v = Inl TypeError"

text \<open>The keys of a dict, each once, in the order of their first entry.\<close>

fun dict_keys :: "(string \<times> json) list \<Rightarrow> string list" where
  "dict_keys [] = []"
| "dict_keys ((k, v) # kvs) = k # filter (\<lambda>k'. k' \<noteq> k) (dict_keys kvs)"

text \<open>The elements a \<^verbatim>\<open>for\<close> loop, \<^verbatim>\<open>extend\<close> or \<^verbatim>\<open>join\<close> draws from a value.\<close>

fun py_iter :: "json \<Rightarrow> py_error + json list" where
  "py_iter (JList xs) = Inr xs"
| "py_iter (JStr s) = Inr (map (\<lambda>c. JStr [c]) s)"
| "py_iter (JObj kvs) = Inr (map JStr (dict_keys kvs))"
| "py_iter v = Inl TypeError"

fun is_str :: "json \<Rightarrow> bool" where
  "is_str (JStr s) = True"
| "is_str v = False"

fun str_of :: "json \<Rightarrow> string" where
  "str_of (JStr s) = s"
| "str_of v = []"

fun intercalate :: "string \<Rightarrow> string list \<Rightarrow> string" where
  "intercalate sep [] = []"
| "intercalate sep [x] = x"
| "intercalate sep (x # y # ys) = x @ sep @ intercalate sep (y # ys)"

text \<open>\<^verbatim>\<open>sep.join(xs)\<close> on an evaluated list: every element must be a str.\<close>

definition join_str :: "string \<Rightarrow> json list \<Rightarrow> py_error + string" where
  "join_str sep xs =
     (if list_all is_str xs then Inr (intercalate sep (map str_of xs)) else Inl TypeError)"

text \<open>\<^verbatim>\<open>sep.join(v)\<close> on any value.\<close>

definition py_join :: "string \<Rightarrow> json \<Rightarrow> py_error + string" where
  "py_join sep v = bind_e (py_iter v) (join_str sep)"

text \<open>
  \<^verbatim>\<open>s.split(c)\<close> for a one-character separator. The result is never empty (lemma
  \<open>split_char_not_Nil\<close>), so the first branch of the \<open>case\<close> is never taken.
\<close>

fun split_char :: "char \<Rightarrow> string \<Rightarrow> string list" where
  "split_char c [] = [[]]"
| "split_char c (x # xs) =
     (if x = c then [] # split_char c xs
      else (case split_char c xs of [] \<Rightarrow> [[x]] | w # ws \<Rightarrow> (x # w) # ws))"

text \<open>\<^verbatim>\<open>v.split('/')[-1]\<close>: only a str has \<^verbatim>\<open>split\<close>.\<close>

fun split_last :: "json \<Rightarrow> py_error + json" where
  "split_last (JStr s) = Inr (JStr (last (split_char CHR ''/'' s)))"
| "split_last v = Inl AttributeError"

text \<open>\<^verbatim>\<open>v.get(k, d)\<close>: only a dict has \<^verbatim>\<open>get\<close>.\<close>

fun py_get :: "json \<Rightarrow> string \<Rightarrow> json \<Rightarrow> py_error + json" where
  "py_get (JObj kvs) k d = Inr (case map_of kvs k of None \<Rightarrow> d | Some v \<Rightarrow> v)"
| "py_get v k d = Inl AttributeError"

section \<open>get_external_ip\<close>

text \<open>
  \<^verbatim>\<open>instance["networkInterfaces"][0]["accessConfigs"][0]["natIP"]\<close>, the expression
  inside the \<^verbatim>\<open>try\<close>.
\<close>

definition nat_ip_path :: "json \<Rightarrow> py_error + json" where
  "nat_ip_path inst =
     bind_e (subscript_key inst ''networkInterfaces'') (\<lambda>nis.
     bind_e (subscript_idx nis 0) (\<lambda>ni.
     bind_e (subscript_key ni ''accessConfigs'') (\<lambda>acs.
     bind_e (subscript_idx acs 0) (\<lambda>ac.
     subscript_key ac ''natIP''))))"

text \<open>\<^verbatim>\<open>except KeyError: return "none"\<close>; every other exception leaves the function.\<close>

definition get_external_ip :: "json \<Rightarrow> py_error + json" where
  "get_external_ip inst =
     (case nat_ip_path inst of
        Inl KeyError \<Rightarrow> Inr (JStr ''none'')
      | Inl e \<Rightarrow> Inl e
      | Inr v \<Rightarrow> Inr v)"

section \<open>Output, exceptions and non-termination\<close>

text \<open>
  A run prints lines and then returns, raises, or never ends. \<open>None\<close> is the run that
  never ends (a provider that always hands out a next page); otherwise the lines printed so
  far come with the exception (\<open>Inl\<close>) or the value (\<open>Inr\<close>). The lines printed before an
  exception stay printed.
\<close>

type_synonym 'a io = "(string list \<times> (py_error + 'a)) option"

definition io_return :: "'a \<Rightarrow> 'a io" where
  "io_return x = Some ([], Inr x)"

definition io_print :: "string \<Rightarrow> unit io" where
  "io_print line = Some ([line], Inr ())"

definition io_pure :: "py_error + 'a \<Rightarrow> 'a io" where
  "io_pure r = Some ([], r)"

definition io_wait :: "(py_error + 'a) option \<Rightarrow> 'a io" where
  "io_wait m = (case m of None \<Rightarrow> None | Some r \<Rightarrow> Some ([], r))"

definition io_bind :: "'a io \<Rightarrow> ('a \<Rightarrow> 'b io) \<Rightarrow> 'b io" where
  "io_bind m f =
     (case m of
        None \<Rightarrow> None
      | Some (out, Inl e) \<Rightarrow> Some (out, Inl e)
      | Some (out, Inr x) \<Rightarrow>
          (case f x of None \<Rightarrow> None | Some (out', r) \<Rightarrow> Some (out @ out', r)))"

fun for_each :: "'a list \<Rightarrow> ('a \<Rightarrow> unit io) \<Rightarrow> unit io" where
  "for_each [] f = io_return ()"
| "for_each (x # xs) f = io_bind (f x) (\<lambda>_. for_each xs f)"

text \<open>\<^verbatim>\<open>for item in v: ...\<close>\<close>

definition for_in :: "json \<Rightarrow> (json \<Rightarrow> unit io) \<Rightarrow> unit io" where
  "for_in v f = io_bind (io_pure (py_iter v)) (\<lambda>xs. for_each xs f)"

section \<open>The cloud provider\<close>

text \<open>
  What the Memorystore client yields for one instance: each field holds the \<^verbatim>\<open>str()\<close> of
  the attribute the report reads.
\<close>

record redis_instance =
  location_id :: string
  display_name :: string
  state :: string
  redis_version :: string
  host :: string
  tier :: string
  memory_size_gb :: string

text \<open>
  The pager \<^verbatim>\<open>list_instances\<close> returns: the instances it yields and, when a later page
  fails to load, the exception that ends the iteration.
\<close>

type_synonym redis_pager = "redis_instance list \<times> py_error option"

text \<open>
  Everything outside main.py: the remote calls, taken as functions of their arguments (the
  provider answers the same request the same way throughout a run), and the two built-ins
  whose behaviour on values other than strings the model leaves open (\<^verbatim>\<open>format\<close> in an
  f-string, and the order \<^verbatim>\<open>list.sort\<close> uses). \<open>'r\<close> is the type of request objects.
\<close>

record 'r cloud =
  run_gcloud :: "py_error + string"
  discovery_build :: "string \<Rightarrow> string \<Rightarrow> py_error + unit"
  redis_client :: "py_error + unit"
  execute :: "'r \<Rightarrow> py_error + json"
  projects_list :: "'r"
  projects_list_next :: "'r \<Rightarrow> json \<Rightarrow> py_error + 'r option"
  zones_list :: "json \<Rightarrow> 'r"
  zones_list_next :: "'r \<Rightarrow> json \<Rightarrow> py_error + 'r option"
  regions_list :: "json \<Rightarrow> 'r"
  regions_list_next :: "'r \<Rightarrow> json \<Rightarrow> py_error + 'r option"
  instances_list :: "json \<Rightarrow> json \<Rightarrow> py_error + json"
  disks_list :: "json \<Rightarrow> json \<Rightarrow> py_error + json"
  addresses_list :: "json \<Rightarrow> json \<Rightarrow> py_error + json"
  sql_instances_list :: "json \<Rightarrow> py_error + json"
  redis_list_instances :: "json \<Rightarrow> py_error + redis_pager"
  api_keys_get :: "string \<Rightarrow> json \<Rightarrow> py_error + json"
  format_value :: "json \<Rightarrow> string"
  sort_values :: "json list \<Rightarrow> py_error + json list"

section \<open>Pagination: get_projects, get_zones, get_regions\<close>

text \<open>
  The loop the three enumerators share:
  \<^verbatim>\<open>while request is not None: response = request.execute(); <body>; request = list_next(request, response)\<close>.
  \<open>ex\<close> executes a request, \<open>nx\<close> is \<^verbatim>\<open>list_next\<close>, \<open>body\<close> adds one response to the
  accumulated list.
\<close>

partial_function (option) paginate ::
  "('r \<Rightarrow> py_error + json) \<Rightarrow> ('r \<Rightarrow> json \<Rightarrow> py_error + 'r option) \<Rightarrow>
   (json list \<Rightarrow> json \<Rightarrow> py_error + json list) \<Rightarrow> 'r option \<Rightarrow> json list \<Rightarrow>
   (py_error + json list) option"
where
  "paginate ex nx body request acc =
     (case request of
        None \<Rightarrow> Some (Inr acc)
      | Some r \<Rightarrow>
          (case ex r of
             Inl e \<Rightarrow> Some (Inl e)
           | Inr response \<Rightarrow>
               (case body acc response of
                  Inl e \<Rightarrow> Some (Inl e)
                | Inr acc' \<Rightarrow>
                    (case nx r response of
                       Inl e \<Rightarrow> Some (Inl e)
                     | Inr request' \<Rightarrow> paginate ex nx body request' acc'))))"

text \<open>\<^verbatim>\<open>projects.extend(response.get('projects', []))\<close>\<close>

definition page_projects :: "json \<Rightarrow> py_error + json list" where
  "page_projects response = bind_e (py_get response ''projects'' (JList [])) py_iter"

definition extend_projects :: "json list \<Rightarrow> json \<Rightarrow> py_error + json list" where
  "extend_projects projects response =
     bind_e (page_projects response) (\<lambda>ps. Inr (projects @ ps))"

definition get_projects :: "'r cloud \<Rightarrow> (py_error + json list) option" where
  "get_projects env =
     paginate (execute env) (projects_list_next env) extend_projects
       (Some (projects_list env)) []"

text \<open>\<^verbatim>\<open>for zone in response['items']: zones.append(zone["name"])\<close>\<close>

definition page_names :: "json \<Rightarrow> py_error + json list" where
  "page_names response =
     bind_e (subscript_key response ''items'') (\<lambda>items.
     bind_e (py_iter items) (\<lambda>zs.
     sequence_e (map (\<lambda>z. subscript_key z ''name'') zs)))"

definition append_names :: "json list \<Rightarrow> json \<Rightarrow> py_error + json list" where
  "append_names names response = bind_e (page_names response) (\<lambda>ns. Inr (names @ ns))"

text \<open>
  \<^verbatim>\<open>names.sort()\<close>: a list of strings is put in ascending lexicographic order; on any
  other list the result is the provider record's \<open>sort_values\<close>.
\<close>

definition py_sort :: "'r cloud \<Rightarrow> json list \<Rightarrow> py_error + json list" where
  "py_sort env xs =
     (if list_all is_str xs then Inr (map JStr (sort (map str_of xs)))
      else sort_values env xs)"

definition get_zones :: "'r cloud \<Rightarrow> json \<Rightarrow> (py_error + json list) option" where
  "get_zones env project =
     (case discovery_build env ''compute'' ''v1'' of
        Inl e \<Rightarrow> Some (Inl e)
      | Inr _ \<Rightarrow>
          (case paginate (execute env) (zones_list_next env) append_names
                  (Some (zones_list env project)) [] of
             None \<Rightarrow> None
           | Some (Inl e) \<Rightarrow> Some (Inl e)
           | Some (Inr zones) \<Rightarrow> Some (py_sort env zones)))"

definition get_regions :: "'r cloud \<Rightarrow> json \<Rightarrow> (py_error + json list) option" where
  "get_regions env project =
     (case discovery_build env ''compute'' ''v1'' of
        Inl e \<Rightarrow> Some (Inl e)
      | Inr _ \<Rightarrow>
          (case paginate (execute env) (regions_list_next env) append_names
                  (Some (regions_list env project)) [] of
             None \<Rightarrow> None
           | Some (Inl e) \<Rightarrow> Some (Inl e)
           | Some (Inr regions) \<Rightarrow> Some (py_sort env regions)))"

text \<open>
  The pages a provider serves from a request on: each request executes to the next page of
  the list, and \<^verbatim>\<open>list_next\<close> of the last page is \<^verbatim>\<open>None\<close>.
\<close>

fun serves ::
  "('r \<Rightarrow> py_error + json) \<Rightarrow> ('r \<Rightarrow> json \<Rightarrow> py_error + 'r option) \<Rightarrow>
   'r option \<Rightarrow> json list \<Rightarrow> bool"
where
  "serves ex nx None pages = (pages = [])"
| "serves ex nx (Some r) [] = False"
| "serves ex nx (Some r) (p # pages) =
     (ex r = Inr p \<and> (case nx r p of Inl e \<Rightarrow> False | Inr r' \<Rightarrow> serves ex nx r' pages))"

section \<open>The compute report\<close>

text \<open>\<^verbatim>\<open>result['items'] if 'items' in result else None\<close>\<close>

definition items_or_none :: "json \<Rightarrow> py_error + json" where
  "items_or_none result =
     bind_e (py_in ''items'' result) (\<lambda>present.
       if present then subscript_key result ''items'' else Inr JNull)"

definition list_instances :: "'r cloud \<Rightarrow> json \<Rightarrow> json \<Rightarrow> py_error + json" where
  "list_instances env project zone = bind_e (instances_list env project zone) items_or_none"

definition list_disks :: "'r cloud \<Rightarrow> json \<Rightarrow> json \<Rightarrow> py_error + json" where
  "list_disks env project zone = bind_e (disks_list env project zone) items_or_none"

definition list_addresses :: "'r cloud \<Rightarrow> json \<Rightarrow> json \<Rightarrow> py_error + json" where
  "list_addresses env project region =
     bind_e (addresses_list env project region) items_or_none"

text \<open>The row of one instance (lines 89 to 96).\<close>

definition instance_row :: "json \<Rightarrow> py_error + string" where
  "instance_row item =
     bind_e (sequence_e
       [bind_e (subscript_key item ''zone'') split_last,
        subscript_key item ''name'',
        subscript_key item ''status'',
        bind_e (subscript_key item ''machineType'') split_last,
        bind_e (subscript_key item ''networkInterfaces'') (\<lambda>nis.
          bind_e (subscript_idx nis 0) (\<lambda>ni. subscript_key ni ''networkIP'')),
        get_external_ip item])
       (join_str '','')"

text \<open>\<^verbatim>\<open>('|'.join(item["users"])).split('/')[-1]\<close>\<close>

definition users_field :: "json \<Rightarrow> py_error + json" where
  "users_field item =
     bind_e (subscript_key item ''users'') (\<lambda>users.
     bind_e (py_join ''|'' users) (\<lambda>joined. split_last (JStr joined)))"

text \<open>The row of one disk (lines 104 to 110).\<close>

definition disk_row :: "json \<Rightarrow> py_error + string" where
  "disk_row item =
     bind_e (sequence_e
       [bind_e (subscript_key item ''zone'') split_last,
        subscript_key item ''name'',
        subscript_key item ''status'',
        subscript_key item ''sizeGb'',
        users_field item])
       (join_str '','')"

text \<open>The row of one address (lines 118 to 126).\<close>

definition address_row :: "json \<Rightarrow> py_error + string" where
  "address_row item =
     bind_e (sequence_e
       [bind_e (subscript_key item ''region'') split_last,
        subscript_key item ''name'',
        subscript_key item ''status'',
        subscript_key item ''address'',
        subscript_key item ''networkTier'',
        subscript_key item ''addressType'',
        users_field item])
       (join_str '','')"

text \<open>\<^verbatim>\<open>if items: for item in items: print(row)\<close>\<close>

definition print_rows :: "(json \<Rightarrow> py_error + string) \<Rightarrow> json \<Rightarrow> unit io" where
  "print_rows row items =
     (if truthy items then for_in items (\<lambda>item. io_bind (io_pure (row item)) io_print)
      else io_return ())"

definition compute_instance_report :: "'r cloud \<Rightarrow> json \<Rightarrow> unit io" where
  "compute_instance_report env project =
     io_bind (io_print ''==== Compute Engine ===='') (\<lambda>_.
     io_bind (io_pure (discovery_build env ''compute'' ''v1'')) (\<lambda>_.
     io_bind (io_print ''-- Instances --'') (\<lambda>_.
     io_bind (io_wait (get_zones env project)) (\<lambda>zones.
     io_bind (for_each zones (\<lambda>zone.
       io_bind (io_pure (list_instances env project zone)) (print_rows instance_row))) (\<lambda>_.
     io_bind (io_print ''-- Disks --'') (\<lambda>_.
     io_bind (io_wait (get_zones env project)) (\<lambda>zones.
     io_bind (for_each zones (\<lambda>zone.
       io_bind (io_pure (list_disks env project zone)) (print_rows disk_row))) (\<lambda>_.
     io_bind (io_print ''-- Addresses --'') (\<lambda>_.
     io_bind (io_wait (get_regions env project)) (\<lambda>regions.
     for_each regions (\<lambda>region.
       io_bind (io_pure (list_addresses env project region)) (print_rows address_row))))))))))))"

section \<open>The SQL report\<close>

definition list_sql_instances :: "'r cloud \<Rightarrow> json \<Rightarrow> py_error + json" where
  "list_sql_instances env project = bind_e (sql_instances_list env project) items_or_none"

text \<open>The row of one SQL instance (lines 141 to 151).\<close>

definition sql_row :: "json \<Rightarrow> py_error + string" where
  "sql_row item =
     bind_e (sequence_e
       [subscript_key item ''region'',
        subscript_key item ''gceZone'',
        subscript_key item ''name'',
        subscript_key item ''state'',
        subscript_key item ''databaseVersion'',
        bind_e (subscript_key item ''settings'') (\<lambda>st. subscript_key st ''tier''),
        bind_e (subscript_key item ''settings'') (\<lambda>st. subscript_key st ''availabilityType''),
        bind_e (subscript_key item ''ipAddresses'') (\<lambda>ips.
          bind_e (subscript_idx ips 0) (\<lambda>ip. subscript_key ip ''ipAddress'')),
        bind_e (subscript_key item ''ipAddresses'') (\<lambda>ips.
          bind_e (subscript_idx ips 1) (\<lambda>ip. subscript_key ip ''ipAddress''))])
       (join_str '','')"

text \<open>No \<^verbatim>\<open>if items:\<close> here: the loop iterates whatever \<open>list_sql_instances\<close> returned.\<close>

definition sql_instance_report :: "'r cloud \<Rightarrow> json \<Rightarrow> unit io" where
  "sql_instance_report env project =
     io_bind (io_print ''==== SQL Engine ===='') (\<lambda>_.
     io_bind (io_pure (discovery_build env ''sqladmin'' ''v1beta4'')) (\<lambda>_.
     io_bind (io_pure (list_sql_instances env project)) (\<lambda>items.
     for_in items (\<lambda>item. io_bind (io_pure (sql_row item)) io_print))))"

section \<open>The Memorystore report\<close>

text \<open>The bare \<^verbatim>\<open>except:\<close> turns every exception of the listing call into \<^verbatim>\<open>None\<close>.\<close>

definition list_redis_instances :: "'r cloud \<Rightarrow> json \<Rightarrow> redis_pager option" where
  "list_redis_instances env project =
     (case redis_list_instances env project of Inl e \<Rightarrow> None | Inr result \<Rightarrow> Some result)"

definition redis_row :: "redis_instance \<Rightarrow> string" where
  "redis_row item =
     intercalate '',''
       [location_id item, display_name item, state item, redis_version item, host item,
        tier item, memory_size_gb item]"

text \<open>A pager is an object without \<^verbatim>\<open>__bool__\<close> or \<^verbatim>\<open>__len__\<close>: it is true.\<close>

definition redis_instance_report :: "'r cloud \<Rightarrow> json \<Rightarrow> unit io" where
  "redis_instance_report env project =
     io_bind (io_print ''==== Memorystore ===='') (\<lambda>_.
     io_bind (io_pure (redis_client env)) (\<lambda>_.
       (case list_redis_instances env project of
          None \<Rightarrow> io_return ()
        | Some (items, failure) \<Rightarrow>
            io_bind (for_each items (\<lambda>item. io_print (redis_row item))) (\<lambda>_.
              (case failure of None \<Rightarrow> io_return () | Some e \<Rightarrow> io_pure (Inl e))))))"

section \<open>The API-key report\<close>

definition create_token :: "'r cloud \<Rightarrow> py_error + string" where
  "create_token env = run_gcloud env"

definition create_service :: "'r cloud \<Rightarrow> py_error + unit" where
  "create_service env = discovery_build env ''cloudresourcemanager'' ''v1''"

text \<open>The row of one key (lines 213 to 218).\<close>

definition api_key_row :: "json \<Rightarrow> py_error + string" where
  "api_key_row item =
     bind_e (sequence_e
       [subscript_key item ''keyId'',
        subscript_key item ''displayName'',
        subscript_key item ''currentKey'',
        subscript_key item ''createTime''])
       (join_str '','')"

definition api_keys_report :: "'r cloud \<Rightarrow> string \<Rightarrow> json \<Rightarrow> unit io" where
  "api_keys_report env access_token project =
     io_bind (io_print ''==== API Keys ===='') (\<lambda>_.
     io_bind (io_pure (api_keys_get env access_token project)) (\<lambda>items.
     io_bind (io_pure (py_in ''error'' items)) (\<lambda>has_error.
       if \<not> has_error then
         (if truthy items then
            io_bind (io_pure (subscript_key items ''keys'')) (\<lambda>keys.
              for_in keys (\<lambda>item. io_bind (io_pure (api_key_row item)) io_print))
          else io_return ())
       else io_return ())))"

section \<open>main\<close>

text \<open>An f-string field: a str is inserted as it is.\<close>

definition fstring :: "'r cloud \<Rightarrow> json \<Rightarrow> string" where
  "fstring env v = (case v of JStr s \<Rightarrow> s | _ \<Rightarrow> format_value env v)"

text \<open>The body of \<^verbatim>\<open>for project in projects\<close> (lines 230 to 234).\<close>

definition project_report :: "'r cloud \<Rightarrow> string \<Rightarrow> json \<Rightarrow> unit io" where
  "project_report env access_token project =
     io_bind (io_pure (subscript_key project ''projectId'')) (\<lambda>pid.
     io_bind (io_print (''======================== '' @ fstring env pid)) (\<lambda>_.
     io_bind (io_bind (io_pure (subscript_key project ''projectId''))
                (compute_instance_report env)) (\<lambda>_.
     io_bind (io_bind (io_pure (subscript_key project ''projectId''))
                (sql_instance_report env)) (\<lambda>_.
     io_bind (io_bind (io_pure (subscript_key project ''projectId''))
                (redis_instance_report env)) (\<lambda>_.
     io_bind (io_pure (subscript_key project ''projectId''))
       (api_keys_report env access_token))))))"

definition main :: "'r cloud \<Rightarrow> unit io" where
  "main env =
     io_bind (io_pure (create_token env)) (\<lambda>access_token.
     io_bind (io_pure (create_service env)) (\<lambda>service.
     io_bind (io_wait (get_projects env)) (\<lambda>projects.
     io_bind (for_each projects (project_report env access_token)) (\<lambda>_.
     io_print ''======================== END''))))"

section \<open>Example providers and records\<close>

text \<open>
  The providers and records the theorems below are instantiated on. Requests are numbers.
  \<open>scenario\<close> is one project \<open>demo\<close> with the zones \<open>us-b\<close> and \<open>eu-a\<close> (served in that
  order), one instance without external IP in \<open>us-b\<close>, no disk, no region, no SQL instance,
  no Memorystore instance and no API key. The region listing has an empty list of items; the
  instance, disk, address and SQL listings of an empty collection carry no \<open>items\<close> entry,
  as the compute and SQL services answer.
\<close>

definition no_next :: "nat \<Rightarrow> json \<Rightarrow> py_error + nat option" where
  "no_next request response = Inr None"

definition vm1 :: json where
  "vm1 = JObj
     [(''zone'', JStr ''projects/demo/zones/us-b''),
      (''name'', JStr ''vm-1''),
      (''status'', JStr ''RUNNING''),
      (''machineType'', JStr ''projects/demo/zones/us-b/machineTypes/e2-small''),
      (''networkInterfaces'', JList [JObj [(''networkIP'', JStr ''10.0.0.2'')]])]"

definition scenario_execute :: "nat \<Rightarrow> py_error + json" where
  "scenario_execute request =
     (if request = 0 then Inr (JObj [(''projects'', JList [JObj [(''projectId'', JStr ''demo'')]])])
      else if request = 1 then
        Inr (JObj [(''items'', JList [JObj [(''name'', JStr ''us-b'')], JObj [(''name'', JStr ''eu-a'')]])])
      else Inr (JObj [(''items'', JList [])]))"

definition scenario_instances :: "json \<Rightarrow> json \<Rightarrow> py_error + json" where
  "scenario_instances project zone =
     (if zone = JStr ''us-b'' then Inr (JObj [(''items'', JList [vm1])])
      else Inr (JObj [(''kind'', JStr ''compute#instanceList'')]))"

definition scenario :: "nat cloud" where
  "scenario =
     \<lparr>run_gcloud = Inr ''token'',
      discovery_build = (\<lambda>name version. Inr ()),
      redis_client = Inr (),
      execute = scenario_execute,
      projects_list = 0,
      projects_list_next = no_next,
      zones_list = (\<lambda>project. 1),
      zones_list_next = no_next,
      regions_list = (\<lambda>project. 2),
      regions_list_next = no_next,
      instances_list = scenario_instances,
      disks_list = (\<lambda>project zone. Inr (JObj [(''kind'', JStr ''compute#diskList'')])),
      addresses_list = (\<lambda>project region. Inr (JObj [(''kind'', JStr ''compute#addressList'')])),
      sql_instances_list = (\<lambda>project. Inr (JObj [(''kind'', JStr ''sql#instancesList'')])),
      redis_list_instances = (\<lambda>project. Inr ([], None)),
      api_keys_get = (\<lambda>access_token project. Inr (JObj [])),
      format_value = (\<lambda>v. []),
      sort_values = Inr\<rparr>"

text \<open>
  Two SQL instances, the second with a single address, and the scenario with a SQL listing
  of given instances.
\<close>

definition db1 :: json where
  "db1 = JObj
     [(''region'', JStr ''us-central1''),
      (''gceZone'', JStr ''us-central1-a''),
      (''name'', JStr ''db-1''),
      (''state'', JStr ''RUNNABLE''),
      (''databaseVersion'', JStr ''POSTGRES_13''),
      (''settings'', JObj [(''tier'', JStr ''db-f1-micro''), (''availabilityType'', JStr ''ZONAL'')]),
      (''ipAddresses'',
         JList [JObj [(''type'', JStr ''PRIMARY''), (''ipAddress'', JStr ''34.1.2.3'')],
                JObj [(''type'', JStr ''PRIVATE''), (''ipAddress'', JStr ''10.1.2.3'')]])]"

definition db2 :: json where
  "db2 = JObj
     [(''region'', JStr ''us-central1''),
      (''gceZone'', JStr ''us-central1-b''),
      (''name'', JStr ''db-2''),
      (''state'', JStr ''RUNNABLE''),
      (''databaseVersion'', JStr ''MYSQL_8_0''),
      (''settings'', JObj [(''tier'', JStr ''db-f1-micro''), (''availabilityType'', JStr ''ZONAL'')]),
      (''ipAddresses'',
         JList [JObj [(''type'', JStr ''PRIMARY''), (''ipAddress'', JStr ''34.1.2.4'')]])]"

definition with_sql :: "json list \<Rightarrow> nat cloud" where
  "with_sql items = scenario\<lparr>sql_instances_list := (\<lambda>project. Inr (JObj [(''items'', JList items)]))\<rparr>"

text \<open>
  The scenario with a Memorystore listing that is denied, and with a given body of the
  API-key response.
\<close>

definition redis_denied :: "nat cloud" where
  "redis_denied = scenario\<lparr>redis_list_instances := (\<lambda>project. Inl (External ''PermissionDenied''))\<rparr>"

definition key1 :: json where
  "key1 = JObj [(''keyId'', JStr ''k-1''), (''displayName'', JStr ''browser key''),
                (''currentKey'', JStr ''AIza-demo''), (''createTime'', JStr ''2020-05-01T00:00:00Z'')]"

definition with_keys :: "json \<Rightarrow> nat cloud" where
  "with_keys body = scenario\<lparr>api_keys_get := (\<lambda>access_token project. Inr body)\<rparr>"

text \<open>
  A provider that serves projects, zones and regions in two pages each, out of order, and
  one whose zone and region listings are empty lists.
\<close>

definition names_page :: "string list \<Rightarrow> json" where
  "names_page ns = JObj [(''items'', JList (map (\<lambda>n. JObj [(''name'', JStr n)]) ns))]"

definition projects_page :: "string list \<Rightarrow> json" where
  "projects_page ids = JObj [(''projects'', JList (map (\<lambda>i. JObj [(''projectId'', JStr i)]) ids))]"

definition paged_execute :: "nat \<Rightarrow> py_error + json" where
  "paged_execute request =
     (if request = 0 then Inr (projects_page [''alpha''])
      else if request = 5 then Inr (projects_page [''beta'', ''gamma''])
      else if request = 1 then Inr (names_page [''us-b'', ''asia''])
      else if request = 3 then Inr (names_page [''eu-a''])
      else if request = 2 then Inr (names_page [''us'', ''eu''])
      else Inr (names_page [''asia'']))"

definition paged_next :: "nat \<Rightarrow> json \<Rightarrow> py_error + nat option" where
  "paged_next request response =
     Inr (if request = 0 then Some 5 else if request = 1 then Some 3
          else if request = 2 then Some 4 else None)"

definition paged :: "nat cloud" where
  "paged = scenario\<lparr>execute := paged_execute, projects_list_next := paged_next,
                     zones_list_next := paged_next, regions_list_next := paged_next\<rparr>"

definition empty_project :: "nat cloud" where
  "empty_project = scenario\<lparr>execute := (\<lambda>request. Inr (names_page []))\<rparr>"






section \<open>Facts about the Python operations\<close>






lemma sequence_e_raise: "Inl e \<in> set rs \<Longrightarrow> \<exists>e'. sequence_e rs = Inl e'"
proof (induction rs)
  case Nil
  then show ?case by simp
next
  case (Cons r rs)
  then show ?case by (cases r) (auto split: sum.splits)
qed

lemma sort_mset_eq: "mset xs = mset ys \<Longrightarrow> sort xs = sort (ys :: string list)"
  by (metis properties_for_sort sorted_sort mset_sort)

section \<open>Facts about the output monad and the loops\<close>

lemma io_bind_print: "io_bind (io_print s) f = (case f () of None \<Rightarrow> None | Some (out, r) \<Rightarrow> Some (s # out, r))"
  by (simp add: io_bind_def io_print_def split: option.splits)

lemma io_bind_pure_Inr: "io_bind (io_pure (Inr x)) f = f x"
  by (simp add: io_bind_def io_pure_def split: option.splits)

lemma io_bind_pure_Inl: "io_bind (io_pure (Inl e)) f = Some ([], Inl e)"
  by (simp add: io_bind_def io_pure_def)

lemma io_bind_return: "io_bind (io_return x) f = f x"
  by (simp add: io_bind_def io_return_def split: option.splits)

lemma io_bind_wait_Inr: "io_bind (io_wait (Some (Inr x))) f = f x"
  by (simp add: io_bind_def io_wait_def split: option.splits)

lemma io_bind_Some_Inr: "io_bind (Some (out, Inr x)) f = (case f x of None \<Rightarrow> None | Some (out', r) \<Rightarrow> Some (out @ out', r))"
  by (simp add: io_bind_def)

lemma io_bind_Some_Inl: "io_bind (Some (out, Inl e)) f = Some (out, Inl e)"
  by (simp add: io_bind_def)

lemma print_row_Inr: "row item = Inr l \<Longrightarrow> io_bind (io_pure (row item)) io_print = Some ([l], Inr ())"
  by (simp add: io_bind_pure_Inr io_print_def)

lemma print_row_Inl: "row item = Inl e \<Longrightarrow> io_bind (io_pure (row item)) io_print = Some ([], Inl e)"
  by (simp add: io_bind_pure_Inl)

lemma for_each_rows:
  "map row items = map Inr lines \<Longrightarrow>
   for_each items (\<lambda>item. io_bind (io_pure (row item)) io_print) = Some (lines, Inr ())"
proof (induction items arbitrary: lines)
  case Nil
  then show ?case by (simp add: io_return_def)
next
  case (Cons item items)
  then obtain l ls where "lines = l # ls" "row item = Inr l" "map row items = map Inr ls"
    by (cases lines) auto
  with Cons.IH[of ls] show ?case
    by (simp add: print_row_Inr io_bind_Some_Inr)
qed

lemma for_each_rows_raise:
  "item \<in> set items \<Longrightarrow> row item = Inl e \<Longrightarrow>
   \<exists>out e'. for_each items (\<lambda>item. io_bind (io_pure (row item)) io_print) = Some (out, Inl e')"
proof (induction items)
  case Nil
  then show ?case by simp
next
  case (Cons x items)
  show ?case
  proof (cases "row x")
    case (Inl e')
    then show ?thesis by (simp add: print_row_Inl io_bind_Some_Inl)
  next
    case (Inr l)
    with Cons.prems have "item \<in> set items" by auto
    from Cons.IH[OF this Cons.prems(2)] obtain out e' where
      "for_each items (\<lambda>item. io_bind (io_pure (row item)) io_print) = Some (out, Inl e')" by blast
    with Inr show ?thesis by (simp add: print_row_Inr io_bind_Some_Inr)
  qed
qed

lemma for_in_list: "for_in (JList xs) f = for_each xs f"
  by (simp add: for_in_def io_bind_pure_Inr)

text \<open>
  The loop over the pages a provider serves: every page adds its list, in order, and the loop
  ends after the last page.
\<close>

lemma paginate_serves:
  assumes "serves ex nx request pages"
    and "map page pages = map Inr pss"
  shows "paginate ex nx (\<lambda>acc response. bind_e (page response) (\<lambda>ps. Inr (acc @ ps))) request acc
         = Some (Inr (acc @ concat pss))"
  using assms
proof (induction pages arbitrary: request acc pss)
  case Nil
  then show ?case by (cases request) (simp_all add: paginate.simps)
next
  case (Cons p pages)
  then obtain r where r: "request = Some r" by (cases request) simp_all
  from Cons.prems(2) obtain ps pss' where pss: "pss = ps # pss'" "page p = Inr ps" "map page pages = map Inr pss'"
    by (cases pss) auto
  from Cons.prems(1) r obtain r' where ex: "ex r = Inr p" "nx r p = Inr r'" "serves ex nx r' pages"
    by (auto split: sum.splits)
  show ?case
    using Cons.IH[OF ex(3) pss(3), of "acc @ ps"] r pss ex
    by (subst paginate.simps) (simp add: bind_e_def)
qed

lemma append_names_eq:
  "append_names = (\<lambda>acc response. bind_e (page_names response) (\<lambda>ps. Inr (acc @ ps)))"
  by (intro ext) (simp add: append_names_def)

lemma extend_projects_eq:
  "extend_projects = (\<lambda>acc response. bind_e (page_projects response) (\<lambda>ps. Inr (acc @ ps)))"
  by (intro ext) (simp add: extend_projects_def)

lemma get_projects_serves:
  assumes "serves (execute env) (projects_list_next env) (Some (projects_list env)) pages"
    and "map page_projects pages = map Inr pss"
  shows "get_projects env = Some (Inr (concat pss))"
  using paginate_serves[OF assms, of "[]"] by (simp add: get_projects_def extend_projects_eq)

lemma get_zones_serves:
  assumes "discovery_build env ''compute'' ''v1'' = Inr ()"
    and "serves (execute env) (zones_list_next env) (Some (zones_list env project)) pages"
    and "map page_names pages = map Inr nss"
  shows "get_zones env project = Some (py_sort env (concat nss))"
  using paginate_serves[OF assms(2,3), of "[]"] assms(1)
  by (simp add: get_zones_def append_names_eq)

lemma get_regions_serves:
  assumes "discovery_build env ''compute'' ''v1'' = Inr ()"
    and "serves (execute env) (regions_list_next env) (Some (regions_list env project)) pages"
    and "map page_names pages = map Inr nss"
  shows "get_regions env project = Some (py_sort env (concat nss))"
  using paginate_serves[OF assms(2,3), of "[]"] assms(1)
  by (simp add: get_regions_def append_names_eq)

lemma py_sort_strings: "py_sort env (map JStr ns) = Inr (map JStr (sort ns))"
  by (simp add: py_sort_def list_all_iff comp_def)

lemma concat_map_JStr: "concat (map (map JStr) nss) = map JStr (concat nss)"
  by (simp add: map_concat)

lemma page_names_items:
  "page_names (JObj [(''items'', JList (map (\<lambda>n. JObj [(''name'', JStr n)]) ns))]) = Inr (map JStr ns)"
proof -
  have "sequence_e (map (\<lambda>z. subscript_key z ''name'') (map (\<lambda>n. JObj [(''name'', JStr n)]) ns))
        = Inr (map JStr ns)"
    by (induction ns) simp_all
  then show ?thesis by (simp add: page_names_def bind_e_def)
qed

lemma page_projects_present:
  "map_of kvs ''projects'' = Some (JList ps) \<Longrightarrow> page_projects (JObj kvs) = Inr ps"
  by (simp add: page_projects_def bind_e_def)

lemma page_projects_absent:
  "map_of kvs ''projects'' = None \<Longrightarrow> page_projects (JObj kvs) = Inr []"
  by (simp add: page_projects_def bind_e_def)

lemma get_zones_build: "get_zones env project = Some (Inr zs) \<Longrightarrow> discovery_build env ''compute'' ''v1'' = Inr ()"
  by (cases "discovery_build env ''compute'' ''v1''") (simp_all add: get_zones_def)

text \<open>
  A zone or region listing without an \<open>items\<close> entry ends the enumeration with a KeyError:
  the enumerators read \<open>response['items']\<close> unguarded.
\<close>

lemma paginate_first_page_raises:
  "ex r = Inr response \<Longrightarrow> body acc response = Inl e \<Longrightarrow>
   paginate ex nx body (Some r) acc = Some (Inl e)"
  by (subst paginate.simps) simp

lemma page_names_without_items:
  "map_of kvs ''items'' = None \<Longrightarrow> page_names (JObj kvs) = Inl KeyError"
  by (simp add: page_names_def bind_e_def)

lemma get_zones_without_items:
  assumes "discovery_build env ''compute'' ''v1'' = Inr ()"
    and "execute env (zones_list env project) = Inr (JObj kvs)"
    and "map_of kvs ''items'' = None"
  shows "get_zones env project = Some (Inl KeyError)"
proof -
  have "append_names [] (JObj kvs) = Inl KeyError"
    using assms(3) by (simp add: append_names_def page_names_without_items bind_e_def)
  from paginate_first_page_raises
      [of "execute env" _ _ append_names "[]" KeyError "zones_list_next env", OF assms(2) this] assms(1)
  show ?thesis by (simp add: get_zones_def)
qed

lemma get_regions_without_items:
  assumes "discovery_build env ''compute'' ''v1'' = Inr ()"
    and "execute env (regions_list env project) = Inr (JObj kvs)"
    and "map_of kvs ''items'' = None"
  shows "get_regions env project = Some (Inl KeyError)"
proof -
  have "append_names [] (JObj kvs) = Inl KeyError"
    using assms(3) by (simp add: append_names_def page_names_without_items bind_e_def)
  from paginate_first_page_raises
      [of "execute env" _ _ append_names "[]" KeyError "regions_list_next env", OF assms(2) this] assms(1)
  show ?thesis by (simp add: get_regions_def)
qed

section \<open>Facts about the reports\<close>

lemma get_external_ip_alt:
  "get_external_ip inst =
     (if nat_ip_path inst = Inl KeyError then Inr (JStr ''none'') else nat_ip_path inst)"
  by (simp add: get_external_ip_def split: sum.splits py_error.splits)


lemma sql_row_short:
  assumes "subscript_key item ''ipAddresses'' = Inr (JList ips)" "length ips < 2"
  shows "\<exists>e. sql_row item = Inl e"
proof -
  have "bind_e (subscript_key item ''ipAddresses'') (\<lambda>ips.
          bind_e (subscript_idx ips 1) (\<lambda>ip. subscript_key ip ''ipAddress'')) = Inl IndexError"
    using assms by (simp add: bind_e_def)
  then have "\<exists>e. sequence_e
       [subscript_key item ''region'',
        subscript_key item ''gceZone'',
        subscript_key item ''name'',
        subscript_key item ''state'',
        subscript_key item ''databaseVersion'',
        bind_e (subscript_key item ''settings'') (\<lambda>st. subscript_key st ''tier''),
        bind_e (subscript_key item ''settings'') (\<lambda>st. subscript_key st ''availabilityType''),
        bind_e (subscript_key item ''ipAddresses'') (\<lambda>ips.
          bind_e (subscript_idx ips 0) (\<lambda>ip. subscript_key ip ''ipAddress'')),
        bind_e (subscript_key item ''ipAddresses'') (\<lambda>ips.
          bind_e (subscript_idx ips 1) (\<lambda>ip. subscript_key ip ''ipAddress''))] = Inl e"
    by (intro sequence_e_raise[of IndexError]) simp
  then show ?thesis by (auto simp: sql_row_def bind_e_def)
qed

lemma sql_row_two:
  assumes "subscript_key item ''region'' = Inr (JStr r)"
    and "subscript_key item ''gceZone'' = Inr (JStr z)"
    and "subscript_key item ''name'' = Inr (JStr n)"
    and "subscript_key item ''state'' = Inr (JStr s)"
    and "subscript_key item ''databaseVersion'' = Inr (JStr v)"
    and "subscript_key item ''settings'' = Inr st"
    and "subscript_key st ''tier'' = Inr (JStr t)"
    and "subscript_key st ''availabilityType'' = Inr (JStr a)"
    and "subscript_key item ''ipAddresses'' = Inr (JList [ip0, ip1])"
    and "subscript_key ip0 ''ipAddress'' = Inr (JStr addr0)"
    and "subscript_key ip1 ''ipAddress'' = Inr (JStr addr1)"
  shows "sql_row item = Inr (intercalate '','' [r, z, n, s, v, t, a, addr0, addr1])"
  using assms by (simp add: sql_row_def bind_e_def join_str_def)

lemma sql_instance_report_list:
  assumes "discovery_build env ''sqladmin'' ''v1beta4'' = Inr ()"
    and "list_sql_instances env project = Inr items"
  shows "sql_instance_report env project =
         (case for_in items (\<lambda>item. io_bind (io_pure (sql_row item)) io_print) of
            None \<Rightarrow> None
          | Some (out, r) \<Rightarrow> Some (''==== SQL Engine ===='' # out, r))"
  using assms by (simp add: sql_instance_report_def io_bind_print io_bind_pure_Inr)

lemma items_or_none_absent: "map_of kvs ''items'' = None \<Longrightarrow> items_or_none (JObj kvs) = Inr JNull"
  by (simp add: items_or_none_def bind_e_def)

lemma items_or_none_present: "map_of kvs ''items'' = Some v \<Longrightarrow> items_or_none (JObj kvs) = Inr v"
  by (simp add: items_or_none_def bind_e_def)

lemma print_rows_none: "print_rows row JNull = Some ([], Inr ())"
  by (simp add: print_rows_def io_return_def)

lemma redis_report_of_listing:
  assumes "redis_client env = Inr ()"
  shows "redis_instance_report env project =
     (case redis_list_instances env project of
        Inl e \<Rightarrow> Some ([''==== Memorystore ====''], Inr ())
      | Inr (items, failure) \<Rightarrow>
          Some (''==== Memorystore ===='' # map redis_row items,
                case failure of None \<Rightarrow> Inr () | Some e \<Rightarrow> Inl e))"
proof -
  have rows: "for_each items (\<lambda>item. io_print (redis_row item)) = Some (map redis_row items, Inr ())"
    for items :: "redis_instance list"
    by (induction items) (simp_all add: io_return_def io_bind_print)
  show ?thesis
    using assms
    by (auto simp: redis_instance_report_def list_redis_instances_def io_bind_print
        io_bind_pure_Inr io_return_def rows io_bind_Some_Inr io_pure_def
        split: sum.splits option.splits)
qed

lemma api_key_row_fields:
  assumes "subscript_key item ''keyId'' = Inr (JStr k)"
    and "subscript_key item ''displayName'' = Inr (JStr d)"
    and "subscript_key item ''currentKey'' = Inr (JStr c)"
    and "subscript_key item ''createTime'' = Inr (JStr t)"
  shows "api_key_row item = Inr (intercalate '','' [k, d, c, t])"
  using assms by (simp add: api_key_row_def bind_e_def join_str_def)

lemma py_sort_sql_update: "py_sort (env\<lparr>sql_instances_list := f\<rparr>) = py_sort env"
  by (intro ext) (simp add: py_sort_def)

lemma get_zones_sql_update: "get_zones (env\<lparr>sql_instances_list := f\<rparr>) project = get_zones env project"
  by (cases "discovery_build env ''compute'' ''v1''") (simp_all add: get_zones_def py_sort_sql_update cong: option.case_cong sum.case_cong)

lemma get_regions_sql_update: "get_regions (env\<lparr>sql_instances_list := f\<rparr>) project = get_regions env project"
  by (cases "discovery_build env ''compute'' ''v1''") (simp_all add: get_regions_def py_sort_sql_update cong: option.case_cong sum.case_cong)

lemma compute_sql_update:
  "compute_instance_report (env\<lparr>sql_instances_list := f\<rparr>) project = compute_instance_report env project"
  by (simp add: compute_instance_report_def get_zones_sql_update get_regions_sql_update
      list_instances_def list_disks_def list_addresses_def)






section \<open>Facts about the example providers\<close>

lemma list_sql_with_sql: "list_sql_instances (with_sql items) project = Inr (JList items)"
  by (simp add: list_sql_instances_def with_sql_def scenario_def items_or_none_def bind_e_def)

lemma build_with_sql: "discovery_build (with_sql items) name version = Inr ()"
  by (simp add: with_sql_def scenario_def)

lemma sql_row_db1:
  "sql_row db1 = Inr ''us-central1,us-central1-a,db-1,RUNNABLE,POSTGRES_13,db-f1-micro,ZONAL,34.1.2.3,10.1.2.3''"
  by (simp add: sql_row_def db1_def bind_e_def join_str_def)

lemma redis_denied_client: "redis_client redis_denied = Inr ()"
  by (simp add: redis_denied_def scenario_def)

lemma redis_denied_listing:
  "redis_list_instances redis_denied project = Inl (External ''PermissionDenied'')"
  by (simp add: redis_denied_def)

lemma redis_denied_api_keys:
  "api_keys_report redis_denied ''token'' (JStr ''demo'') = Some ([''==== API Keys ====''], Inr ())"
  by (simp add: redis_denied_def scenario_def api_keys_report_def io_bind_print io_bind_pure_Inr
      io_return_def)

lemma with_keys_get: "api_keys_get (with_keys body) access_token project = Inr body"
  by (simp add: with_keys_def)

lemma api_key_row_key1:
  "api_key_row key1 = Inr ''k-1,browser key,AIza-demo,2020-05-01T00:00:00Z''"
  by (simp add: api_key_row_def key1_def bind_e_def join_str_def)

lemma paged_build: "discovery_build paged name version = Inr ()"
  by (simp add: paged_def scenario_def)

lemma paged_zones:
  "serves (execute paged) (zones_list_next paged) (Some (zones_list paged project))
     [names_page [''us-b'', ''asia''], names_page [''eu-a'']]"
  by (simp add: paged_def scenario_def paged_execute_def paged_next_def)

lemma paged_regions:
  "serves (execute paged) (regions_list_next paged) (Some (regions_list paged project))
     [names_page [''us'', ''eu''], names_page [''asia'']]"
  by (simp add: paged_def scenario_def paged_execute_def paged_next_def)

lemma paged_projects:
  "serves (execute paged) (projects_list_next paged) (Some (projects_list paged))
     [projects_page [''alpha''], projects_page [''beta'', ''gamma'']]"
  by (simp add: paged_def scenario_def paged_execute_def paged_next_def)

lemma page_names_names_page: "page_names (names_page ns) = Inr (map JStr ns)"
  by (simp add: names_page_def page_names_items)

lemma empty_project_zones: "get_zones empty_project project = Some (Inr [])"
proof -
  have "serves (execute empty_project) (zones_list_next empty_project)
          (Some (zones_list empty_project project)) [names_page []]"
    by (simp add: empty_project_def scenario_def no_next_def)
  moreover have "map page_names [names_page []] = map Inr [[]]"
    by (simp add: names_page_def page_names_def bind_e_def)
  moreover have "discovery_build empty_project ''compute'' ''v1'' = Inr ()"
    by (simp add: empty_project_def scenario_def)
  ultimately show ?thesis
    using get_zones_serves[of empty_project project "[names_page []]" "[[]]"]
    by (simp add: py_sort_def)
qed

lemma empty_project_regions: "get_regions empty_project project = Some (Inr [])"
proof -
  have "serves (execute empty_project) (regions_list_next empty_project)
          (Some (regions_list empty_project project)) [names_page []]"
    by (simp add: empty_project_def scenario_def no_next_def)
  moreover have "map page_names [names_page []] = map Inr [[]]"
    by (simp add: names_page_def page_names_def bind_e_def)
  moreover have "discovery_build empty_project ''compute'' ''v1'' = Inr ()"
    by (simp add: empty_project_def scenario_def)
  ultimately show ?thesis
    using get_regions_serves[of empty_project project "[names_page []]" "[[]]"]
    by (simp add: py_sort_def)
qed

lemma scenario_build: "discovery_build scenario name version = Inr ()"
  by (simp add: scenario_def)

lemma scenario_projects: "get_projects scenario = Some (Inr [JObj [(''projectId'', JStr ''demo'')]])"
proof -
  have s: "serves (execute scenario) (projects_list_next scenario) (Some (projects_list scenario))
          [JObj [(''projects'', JList [JObj [(''projectId'', JStr ''demo'')]])]]"
    by (simp add: scenario_def scenario_execute_def no_next_def)
  have m: "map page_projects [JObj [(''projects'', JList [JObj [(''projectId'', JStr ''demo'')]])]]
      = map Inr [[JObj [(''projectId'', JStr ''demo'')]]]"
    by (simp add: page_projects_present)
  from get_projects_serves[OF s m] show ?thesis by simp
qed

lemma scenario_zones: "get_zones scenario project = Some (Inr [JStr ''eu-a'', JStr ''us-b''])"
proof -
  have "serves (execute scenario) (zones_list_next scenario) (Some (zones_list scenario project))
          [names_page [''us-b'', ''eu-a'']]"
    by (simp add: scenario_def scenario_execute_def no_next_def names_page_def)
  moreover have "map page_names [names_page [''us-b'', ''eu-a'']] = map Inr [map JStr [''us-b'', ''eu-a'']]"
    by (simp add: page_names_names_page)
  ultimately have "get_zones scenario project = Some (py_sort scenario (concat [map JStr [''us-b'', ''eu-a'']]))"
    using get_zones_serves[OF scenario_build] by blast
  then show ?thesis by (simp add: py_sort_def)
qed

lemma scenario_regions: "get_regions scenario project = Some (Inr [])"
proof -
  have "serves (execute scenario) (regions_list_next scenario) (Some (regions_list scenario project))
          [names_page []]"
    by (simp add: scenario_def scenario_execute_def no_next_def names_page_def)
  moreover have "map page_names [names_page []] = map Inr [[]]"
    by (simp add: names_page_def page_names_def bind_e_def)
  ultimately have "get_regions scenario project = Some (py_sort scenario (concat [[]]))"
    using get_regions_serves[OF scenario_build] by blast
  then show ?thesis by (simp add: py_sort_def)
qed

lemma instance_row_vm1: "instance_row vm1 = Inr ''us-b,vm-1,RUNNING,e2-small,10.0.0.2,none''"
  by (simp add: instance_row_def vm1_def bind_e_def join_str_def get_external_ip_def nat_ip_path_def)

lemma scenario_instances_eu: "io_bind (io_pure (list_instances scenario project (JStr ''eu-a''))) (print_rows instance_row) = Some ([], Inr ())"
  by (simp add: list_instances_def scenario_def scenario_instances_def bind_e_def items_or_none_absent
      io_bind_pure_Inr print_rows_none)

lemma scenario_instances_us: "io_bind (io_pure (list_instances scenario project (JStr ''us-b''))) (print_rows instance_row) = Some ([''us-b,vm-1,RUNNING,e2-small,10.0.0.2,none''], Inr ())"
proof -
  have "list_instances scenario project (JStr ''us-b'') = Inr (JList [vm1])"
    by (simp add: list_instances_def scenario_def scenario_instances_def bind_e_def items_or_none_present)
  then show ?thesis
    by (simp add: io_bind_pure_Inr print_rows_def for_in_list instance_row_vm1 io_bind_print
        io_return_def)
qed

lemma scenario_disks: "io_bind (io_pure (list_disks scenario project zone)) (print_rows disk_row) = Some ([], Inr ())"
  by (simp add: list_disks_def scenario_def bind_e_def items_or_none_absent
      io_bind_pure_Inr print_rows_none)

lemma scenario_compute:
  "compute_instance_report scenario project =
     Some ([''==== Compute Engine ===='', ''-- Instances --'',
            ''us-b,vm-1,RUNNING,e2-small,10.0.0.2,none'', ''-- Disks --'', ''-- Addresses --''],
           Inr ())"
  by (simp add: compute_instance_report_def io_bind_print io_bind_pure_Inr scenario_build
      scenario_zones scenario_regions io_bind_wait_Inr scenario_instances_eu scenario_instances_us
      scenario_disks io_bind_Some_Inr io_return_def)

lemma scenario_sql:
  "sql_instance_report scenario project = Some ([''==== SQL Engine ====''], Inl TypeError)"
proof -
  have "list_sql_instances scenario project = Inr JNull"
    by (simp add: list_sql_instances_def scenario_def bind_e_def items_or_none_absent)
  from sql_instance_report_list[OF scenario_build this] show ?thesis
    by (simp add: for_in_def io_bind_pure_Inl)
qed





section \<open>The external IP of an instance\<close>

text \<open>
  C1 (as amended). When the lookup of the external-IP path stops at a missing key, that is
  the instance has no \<open>networkInterfaces\<close> entry, or its first network interface has no
  \<open>accessConfigs\<close> entry, or the first access configuration has no \<open>natIP\<close> entry,
  \<open>get_external_ip\<close> returns the string "none" and raises nothing.
\<close>

theorem get_external_ip_missing_key:
  assumes "subscript_key inst ''networkInterfaces'' = Inl KeyError
     \<or> (\<exists>ni rest. subscript_key inst ''networkInterfaces'' = Inr (JList (ni # rest)) \<and>
          (subscript_key ni ''accessConfigs'' = Inl KeyError
           \<or> (\<exists>ac rest'. subscript_key ni ''accessConfigs'' = Inr (JList (ac # rest')) \<and>
                 subscript_key ac ''natIP'' = Inl KeyError)))"
  shows "get_external_ip inst = Inr (JStr ''none'')"
proof -
  have "nat_ip_path inst = Inl KeyError"
    using assms by (auto simp: nat_ip_path_def bind_e_def)
  then show ?thesis by (simp add: get_external_ip_def)
qed

text \<open>
  An instance with one network interface and no access configuration.
\<close>

theorem get_external_ip_missing_key_witness:
  "get_external_ip
     (JObj [(''name'', JStr ''vm-1''),
            (''networkInterfaces'', JList [JObj [(''networkIP'', JStr ''10.0.0.2'')]])])
   = Inr (JStr ''none'')"
  by (rule get_external_ip_missing_key) simp

text \<open>
  C1 as stated fails: the path is also absent when \<open>accessConfigs\<close> is an empty list; the
  lookup then raises IndexError, which the handler does not catch, and the call raises
  instead of returning "none".
\<close>

theorem get_external_ip_empty_list_raises:
  "nat_ip_path
     (JObj [(''name'', JStr ''vm-1''),
            (''networkInterfaces'',
               JList [JObj [(''networkIP'', JStr ''10.0.0.2''), (''accessConfigs'', JList [])]])])
   = Inl IndexError \<and>
   get_external_ip
     (JObj [(''name'', JStr ''vm-1''),
            (''networkInterfaces'',
               JList [JObj [(''networkIP'', JStr ''10.0.0.2''), (''accessConfigs'', JList [])]])])
   = Inl IndexError"
  by (simp add: get_external_ip_def nat_ip_path_def bind_e_def)

section \<open>The IP addresses of a SQL instance\<close>

text \<open>
  C2. Let the SQL listing of a project be a list of instance records. A record with its
  string fields and exactly two \<open>ipAddresses\<close> entries gives the row of its fields ending in
  the address of entry 0 and then the address of entry 1; when every record gives a row, the
  report prints the banner and the rows in order. A record whose \<open>ipAddresses\<close> list has
  fewer than two entries gives no row but an exception, and the report of a listing that
  contains such a record ends in an exception.
\<close>

theorem sql_instance_report_ip_addresses:
  assumes "discovery_build env ''sqladmin'' ''v1beta4'' = Inr ()"
    and "list_sql_instances env project = Inr (JList items)"
  shows "(\<forall>item r z n s v st t a ip0 ip1 addr0 addr1.
            subscript_key item ''region'' = Inr (JStr r) \<and>
            subscript_key item ''gceZone'' = Inr (JStr z) \<and>
            subscript_key item ''name'' = Inr (JStr n) \<and>
            subscript_key item ''state'' = Inr (JStr s) \<and>
            subscript_key item ''databaseVersion'' = Inr (JStr v) \<and>
            subscript_key item ''settings'' = Inr st \<and>
            subscript_key st ''tier'' = Inr (JStr t) \<and>
            subscript_key st ''availabilityType'' = Inr (JStr a) \<and>
            subscript_key item ''ipAddresses'' = Inr (JList [ip0, ip1]) \<and>
            subscript_key ip0 ''ipAddress'' = Inr (JStr addr0) \<and>
            subscript_key ip1 ''ipAddress'' = Inr (JStr addr1) \<longrightarrow>
            sql_row item = Inr (intercalate '','' [r, z, n, s, v, t, a, addr0, addr1]))
    \<and> (\<forall>lines. map sql_row items = map Inr lines \<longrightarrow>
          sql_instance_report env project = Some (''==== SQL Engine ===='' # lines, Inr ()))
    \<and> (\<forall>item ips. item \<in> set items \<and>
            subscript_key item ''ipAddresses'' = Inr (JList ips) \<and> length ips < 2 \<longrightarrow>
          (\<exists>e. sql_row item = Inl e) \<and>
          (\<exists>out e. sql_instance_report env project = Some (out, Inl e)))"
proof (intro conjI allI impI)
  fix item r z n s v st t a ip0 ip1 addr0 addr1
  assume "subscript_key item ''region'' = Inr (JStr r) \<and>
            subscript_key item ''gceZone'' = Inr (JStr z) \<and>
            subscript_key item ''name'' = Inr (JStr n) \<and>
            subscript_key item ''state'' = Inr (JStr s) \<and>
            subscript_key item ''databaseVersion'' = Inr (JStr v) \<and>
            subscript_key item ''settings'' = Inr st \<and>
            subscript_key st ''tier'' = Inr (JStr t) \<and>
            subscript_key st ''availabilityType'' = Inr (JStr a) \<and>
            subscript_key item ''ipAddresses'' = Inr (JList [ip0, ip1]) \<and>
            subscript_key ip0 ''ipAddress'' = Inr (JStr addr0) \<and>
            subscript_key ip1 ''ipAddress'' = Inr (JStr addr1)"
  then show "sql_row item = Inr (intercalate '','' [r, z, n, s, v, t, a, addr0, addr1])"
    by (intro sql_row_two[where st = st and ?ip0.0 = ip0 and ?ip1.0 = ip1]) simp_all
next
  fix lines
  assume "map sql_row items = map Inr lines"
  from for_each_rows[OF this]
  show "sql_instance_report env project = Some (''==== SQL Engine ===='' # lines, Inr ())"
    by (simp add: sql_instance_report_list[OF assms] for_in_list)
next
  fix item ips
  assume a: "item \<in> set items \<and>
            subscript_key item ''ipAddresses'' = Inr (JList ips) \<and> length ips < 2"
  then show "\<exists>e. sql_row item = Inl e" by (auto intro: sql_row_short)
  then obtain e where "sql_row item = Inl e" by blast
  with a for_each_rows_raise[of item items sql_row e] obtain out e' where
    "for_each items (\<lambda>item. io_bind (io_pure (sql_row item)) io_print) = Some (out, Inl e')"
    by blast
  then show "\<exists>out e. sql_instance_report env project = Some (out, Inl e)"
    by (simp add: sql_instance_report_list[OF assms] for_in_list)
qed

text \<open>
  One instance with two addresses is printed; a listing with a second instance that has one
  address ends in an exception.
\<close>

theorem sql_instance_report_ip_addresses_witness:
  "sql_instance_report (with_sql [db1]) (JStr ''demo'') =
     Some ([''==== SQL Engine ===='',
            ''us-central1,us-central1-a,db-1,RUNNABLE,POSTGRES_13,db-f1-micro,ZONAL,34.1.2.3,10.1.2.3''],
           Inr ())
   \<and> (\<exists>out e. sql_instance_report (with_sql [db1, db2]) (JStr ''demo'') = Some (out, Inl e))"
proof
  show "sql_instance_report (with_sql [db1]) (JStr ''demo'') =
     Some ([''==== SQL Engine ===='',
            ''us-central1,us-central1-a,db-1,RUNNABLE,POSTGRES_13,db-f1-micro,ZONAL,34.1.2.3,10.1.2.3''],
           Inr ())"
    using sql_instance_report_ip_addresses[OF build_with_sql list_sql_with_sql, of "[db1]" "JStr ''demo''"]
    by (simp add: sql_row_db1)
  have "subscript_key db2 ''ipAddresses'' =
          Inr (JList [JObj [(''type'', JStr ''PRIMARY''), (''ipAddress'', JStr ''34.1.2.4'')]])"
    by (simp add: db2_def)
  then show "\<exists>out e. sql_instance_report (with_sql [db1, db2]) (JStr ''demo'') = Some (out, Inl e)"
    using sql_instance_report_ip_addresses[OF build_with_sql list_sql_with_sql, of "[db1, db2]" "JStr ''demo''"]
    by (metis length_Cons list.set_intros(1,2) list.size(3) less_Suc_eq One_nat_def Suc_1 lessI)
qed

section \<open>The end-to-end scenario\<close>

text \<open>
  C3, evaluated on the scenario: one project with two zones, one of them empty and the
  other with a single instance without external IP, no region, and no SQL instance, so
  that the SQL listing has no \<open>items\<close> entry. The run prints the project banner, the compute
  banners with the one row ending in "none", and the SQL banner; there
  \<open>sql_instance_report\<close> iterates over \<open>None\<close> and the run ends in a TypeError. The
  Memorystore banner, the API-key banner and the END banner are not printed.
\<close>

theorem main_stops_at_sql_report:
  "main scenario =
     Some ([''======================== demo'', ''==== Compute Engine ===='', ''-- Instances --'',
            ''us-b,vm-1,RUNNING,e2-small,10.0.0.2,none'', ''-- Disks --'', ''-- Addresses --'',
            ''==== SQL Engine ====''],
           Inl TypeError)"
proof -
  have "project_report scenario ''token'' (JObj [(''projectId'', JStr ''demo'')]) =
     Some ([''======================== demo'', ''==== Compute Engine ===='', ''-- Instances --'',
            ''us-b,vm-1,RUNNING,e2-small,10.0.0.2,none'', ''-- Disks --'', ''-- Addresses --'',
            ''==== SQL Engine ====''],
           Inl TypeError)"
    by (simp add: project_report_def io_bind_pure_Inr io_bind_print fstring_def scenario_compute
        scenario_sql io_bind_Some_Inr io_bind_Some_Inl)
  moreover have "create_token scenario = Inr ''token''"
    by (simp add: create_token_def scenario_def)
  moreover have "create_service scenario = Inr ()"
    by (simp add: create_service_def scenario_build)
  ultimately show ?thesis
    by (simp add: main_def io_bind_pure_Inr scenario_projects io_bind_wait_Inr io_bind_Some_Inl)
qed

text \<open>
  With a SQL listing that carries \<open>items\<close> as an empty list, the same run goes on to the
  Memorystore, API-key and END banners and returns.
\<close>

lemma main_with_empty_sql_items:
  "main (with_sql []) =
     Some ([''======================== demo'', ''==== Compute Engine ===='', ''-- Instances --'',
            ''us-b,vm-1,RUNNING,e2-small,10.0.0.2,none'', ''-- Disks --'', ''-- Addresses --'',
            ''==== SQL Engine ===='', ''==== Memorystore ===='', ''==== API Keys ===='',
            ''======================== END''],
           Inr ())"
proof -
  have c: "compute_instance_report (with_sql []) project = compute_instance_report scenario project"
    for project
    by (simp add: with_sql_def compute_sql_update)
  have s: "sql_instance_report (with_sql []) project = Some ([''==== SQL Engine ====''], Inr ())"
    for project
    by (simp add: sql_instance_report_list[OF build_with_sql list_sql_with_sql] for_in_list
        io_return_def)
  have r: "redis_instance_report (with_sql []) project = Some ([''==== Memorystore ====''], Inr ())"
    for project
    by (simp add: redis_report_of_listing with_sql_def scenario_def)
  have k: "api_keys_report (with_sql []) ''token'' project = Some ([''==== API Keys ====''], Inr ())"
    for project
    by (simp add: api_keys_report_def with_sql_def scenario_def io_bind_print io_bind_pure_Inr
        io_return_def)
  have p: "project_report (with_sql []) ''token'' (JObj [(''projectId'', JStr ''demo'')]) =
     Some ([''======================== demo'', ''==== Compute Engine ===='', ''-- Instances --'',
            ''us-b,vm-1,RUNNING,e2-small,10.0.0.2,none'', ''-- Disks --'', ''-- Addresses --'',
            ''==== SQL Engine ===='', ''==== Memorystore ===='', ''==== API Keys ====''],
           Inr ())"
    by (simp add: project_report_def io_bind_pure_Inr io_bind_print fstring_def c scenario_compute
        s r k io_bind_Some_Inr)
  have g: "get_projects (with_sql []) = get_projects scenario"
    by (simp add: get_projects_def with_sql_def)
  have t: "create_token (with_sql []) = Inr ''token''"
    by (simp add: create_token_def with_sql_def scenario_def)
  have v: "create_service (with_sql []) = Inr ()"
    by (simp add: create_service_def build_with_sql)
  show ?thesis
    by (simp add: main_def io_bind_pure_Inr g t v p scenario_projects io_bind_wait_Inr
        io_bind_Some_Inr io_bind_print io_return_def io_print_def)
qed

section \<open>A failing Memorystore listing\<close>

text \<open>
  C4. When the Memorystore client is constructed and its listing call raises an exception
  \<open>e\<close>, whatever it is, \<open>list_redis_instances\<close> returns \<open>None\<close>, \<open>redis_instance_report\<close>
  prints the banner only and returns without an exception, and whatever runs next runs:
  its output follows the banner.
\<close>

theorem redis_instance_report_listing_raises:
  assumes "redis_client env = Inr ()"
    and "redis_list_instances env project = Inl e"
  shows "list_redis_instances env project = None
    \<and> redis_instance_report env project = Some ([''==== Memorystore ====''], Inr ())
    \<and> io_bind (redis_instance_report env project) (\<lambda>_. next_reporter)
        = (case next_reporter of
             None \<Rightarrow> None
           | Some (out, r) \<Rightarrow> Some (''==== Memorystore ===='' # out, r))"
  using assms
  by (simp add: redis_report_of_listing list_redis_instances_def io_bind_Some_Inr
      split: option.splits)

text \<open>
  A listing that is denied: the API-key report follows.
\<close>

theorem redis_instance_report_listing_raises_witness:
  "redis_instance_report redis_denied (JStr ''demo'') = Some ([''==== Memorystore ====''], Inr ())
   \<and> io_bind (redis_instance_report redis_denied (JStr ''demo''))
        (\<lambda>_. api_keys_report redis_denied ''token'' (JStr ''demo''))
      = Some ([''==== Memorystore ===='', ''==== API Keys ====''], Inr ())"
  using redis_instance_report_listing_raises
    [OF redis_denied_client redis_denied_listing,
     of "JStr ''demo''" "api_keys_report redis_denied ''token'' (JStr ''demo'')"]
  by (simp add: redis_denied_api_keys io_bind_Some_Inr)

section \<open>The API-key response\<close>

text \<open>
  C5. Let the body of the API-key response be a JSON object. With an \<open>error\<close> entry, the
  report prints its banner only and returns without an exception; so it does for the empty
  object. Without an \<open>error\<close> entry and with a list \<open>keys\<close> of records that each give a
  row, the banner and the row of every record are printed, in order; the row of a record
  with its four string fields is these fields joined with commas.
\<close>

theorem api_keys_report_error_body:
  assumes "api_keys_get env access_token project = Inr (JObj body)"
  shows "(map_of body ''error'' \<noteq> None \<longrightarrow>
            api_keys_report env access_token project = Some ([''==== API Keys ====''], Inr ()))
    \<and> (body = [] \<longrightarrow>
            api_keys_report env access_token project = Some ([''==== API Keys ====''], Inr ()))
    \<and> (\<forall>keys lines. map_of body ''error'' = None \<and> map_of body ''keys'' = Some (JList keys) \<and>
            map api_key_row keys = map Inr lines \<longrightarrow>
            api_keys_report env access_token project = Some (''==== API Keys ===='' # lines, Inr ()))
    \<and> (\<forall>item k d c t.
            subscript_key item ''keyId'' = Inr (JStr k) \<and>
            subscript_key item ''displayName'' = Inr (JStr d) \<and>
            subscript_key item ''currentKey'' = Inr (JStr c) \<and>
            subscript_key item ''createTime'' = Inr (JStr t) \<longrightarrow>
            api_key_row item = Inr (intercalate '','' [k, d, c, t]))"
proof (intro conjI allI impI)
  assume "map_of body ''error'' \<noteq> None"
  then show "api_keys_report env access_token project = Some ([''==== API Keys ====''], Inr ())"
    using assms
    by (simp add: api_keys_report_def io_bind_print io_bind_pure_Inr io_return_def)
next
  assume "body = []"
  then show "api_keys_report env access_token project = Some ([''==== API Keys ====''], Inr ())"
    using assms
    by (simp add: api_keys_report_def io_bind_print io_bind_pure_Inr io_return_def)
next
  fix keys lines
  assume a: "map_of body ''error'' = None \<and> map_of body ''keys'' = Some (JList keys) \<and>
            map api_key_row keys = map Inr lines"
  then have "body \<noteq> []" by auto
  moreover from a have
    "for_each keys (\<lambda>item. io_bind (io_pure (api_key_row item)) io_print) = Some (lines, Inr ())"
    by (simp add: for_each_rows)
  ultimately show
    "api_keys_report env access_token project = Some (''==== API Keys ===='' # lines, Inr ())"
    using assms a
    by (simp add: api_keys_report_def io_bind_print io_bind_pure_Inr for_in_list)
next
  fix item k d c t
  assume "subscript_key item ''keyId'' = Inr (JStr k) \<and>
            subscript_key item ''displayName'' = Inr (JStr d) \<and>
            subscript_key item ''currentKey'' = Inr (JStr c) \<and>
            subscript_key item ''createTime'' = Inr (JStr t)"
  then show "api_key_row item = Inr (intercalate '','' [k, d, c, t])"
    by (intro api_key_row_fields) simp_all
qed

text \<open>
  A permission error prints no row; a body with one key prints its row.
\<close>

theorem api_keys_report_error_body_witness:
  "api_keys_report
     (with_keys (JObj [(''error'', JObj [(''code'', JNum 403), (''status'', JStr ''PERMISSION_DENIED'')])]))
     ''token'' (JStr ''demo'')
     = Some ([''==== API Keys ====''], Inr ())
   \<and> api_keys_report (with_keys (JObj [(''keys'', JList [key1])])) ''token'' (JStr ''demo'')
     = Some ([''==== API Keys ===='', ''k-1,browser key,AIza-demo,2020-05-01T00:00:00Z''], Inr ())"
  using api_keys_report_error_body
      [OF with_keys_get,
       of "[(''error'', JObj [(''code'', JNum 403), (''status'', JStr ''PERMISSION_DENIED'')])]"
          "''token''" "JStr ''demo''"]
    api_keys_report_error_body
      [OF with_keys_get, of "[(''keys'', JList [key1])]" "''token''" "JStr ''demo''"]
  by (simp add: api_key_row_key1)

section \<open>Sorted zones and regions\<close>

text \<open>
  C6. When the client is built and the provider serves the zones (the regions) of a project
  in pages whose items have string names, \<open>get_zones\<close> (\<open>get_regions\<close>) returns all the names
  of all the pages in ascending lexicographic order: the result is sorted, has the names of
  the pages with their multiplicities, and is the same for every order in which the pages
  hold these names.
\<close>

theorem get_zones_get_regions_sorted:
  assumes "discovery_build env ''compute'' ''v1'' = Inr ()"
  shows "(\<forall>pages nss.
            serves (execute env) (zones_list_next env) (Some (zones_list env project)) pages \<and>
            map page_names pages = map (\<lambda>ns. Inr (map JStr ns)) nss \<longrightarrow>
            get_zones env project = Some (Inr (map JStr (sort (concat nss)))) \<and>
            sorted (sort (concat nss)) \<and> mset (sort (concat nss)) = mset (concat nss) \<and>
            (\<forall>names. mset names = mset (concat nss) \<longrightarrow> sort names = sort (concat nss)))
    \<and> (\<forall>pages nss.
            serves (execute env) (regions_list_next env) (Some (regions_list env project)) pages \<and>
            map page_names pages = map (\<lambda>ns. Inr (map JStr ns)) nss \<longrightarrow>
            get_regions env project = Some (Inr (map JStr (sort (concat nss)))) \<and>
            sorted (sort (concat nss)) \<and> mset (sort (concat nss)) = mset (concat nss) \<and>
            (\<forall>names. mset names = mset (concat nss) \<longrightarrow> sort names = sort (concat nss)))"
proof (intro conjI allI impI)
  fix pages :: "json list" and nss :: "string list list"
  assume a: "serves (execute env) (zones_list_next env) (Some (zones_list env project)) pages \<and>
            map page_names pages = map (\<lambda>ns. Inr (map JStr ns)) nss"
  then have "map page_names pages = map Inr (map (map JStr) nss)" by simp
  from get_zones_serves[OF assms conjunct1[OF a] this]
  show "get_zones env project = Some (Inr (map JStr (sort (concat nss))))"
    by (simp only: concat_map_JStr py_sort_strings)
next
  fix pages :: "json list" and nss :: "string list list"
  assume a: "serves (execute env) (regions_list_next env) (Some (regions_list env project)) pages \<and>
            map page_names pages = map (\<lambda>ns. Inr (map JStr ns)) nss"
  then have "map page_names pages = map Inr (map (map JStr) nss)" by simp
  from get_regions_serves[OF assms conjunct1[OF a] this]
  show "get_regions env project = Some (Inr (map JStr (sort (concat nss))))"
    by (simp only: concat_map_JStr py_sort_strings)
qed (auto intro: sort_mset_eq)

text \<open>
  Zones \<open>us-b\<close>, \<open>asia\<close> on the first page and \<open>eu-a\<close> on the second; regions alike.
\<close>

theorem get_zones_get_regions_sorted_witness:
  "get_zones paged (JStr ''demo'') = Some (Inr [JStr ''asia'', JStr ''eu-a'', JStr ''us-b''])
   \<and> get_regions paged (JStr ''demo'') = Some (Inr [JStr ''asia'', JStr ''eu'', JStr ''us''])"
proof
  have "map page_names [names_page [''us-b'', ''asia''], names_page [''eu-a'']]
        = map (\<lambda>ns. Inr (map JStr ns)) [[''us-b'', ''asia''], [''eu-a'']]"
    by (simp add: page_names_names_page)
  with paged_zones get_zones_get_regions_sorted[OF paged_build, of "JStr ''demo''"]
  have "get_zones paged (JStr ''demo'')
        = Some (Inr (map JStr (sort (concat [[''us-b'', ''asia''], [''eu-a'']]))))"
    by blast
  then show "get_zones paged (JStr ''demo'') = Some (Inr [JStr ''asia'', JStr ''eu-a'', JStr ''us-b''])"
    by simp
  have "map page_names [names_page [''us'', ''eu''], names_page [''asia'']]
        = map (\<lambda>ns. Inr (map JStr ns)) [[''us'', ''eu''], [''asia'']]"
    by (simp add: page_names_names_page)
  with paged_regions get_zones_get_regions_sorted[OF paged_build, of "JStr ''demo''"]
  have "get_regions paged (JStr ''demo'')
        = Some (Inr (map JStr (sort (concat [[''us'', ''eu''], [''asia'']]))))"
    by blast
  then show "get_regions paged (JStr ''demo'') = Some (Inr [JStr ''asia'', JStr ''eu'', JStr ''us''])"
    by simp
qed

section \<open>A project without zones and regions\<close>

text \<open>
  C7. When \<open>get_zones\<close> and \<open>get_regions\<close> both return the empty list for a project,
  \<open>compute_instance_report\<close> prints its four banners and nothing else, and returns.
\<close>

theorem compute_instance_report_no_zones:
  assumes "get_zones env project = Some (Inr [])"
    and "get_regions env project = Some (Inr [])"
  shows "compute_instance_report env project =
     Some ([''==== Compute Engine ===='', ''-- Instances --'', ''-- Disks --'', ''-- Addresses --''],
           Inr ())"
  using assms get_zones_build[OF assms(1)]
  by (simp add: compute_instance_report_def io_bind_print io_bind_pure_Inr io_bind_wait_Inr
      io_return_def io_bind_Some_Inr)

text \<open>
  A provider whose zone and region listings are empty lists.
\<close>

theorem compute_instance_report_no_zones_witness:
  "compute_instance_report empty_project (JStr ''demo'') =
     Some ([''==== Compute Engine ===='', ''-- Instances --'', ''-- Disks --'', ''-- Addresses --''],
           Inr ())"
  by (rule compute_instance_report_no_zones[OF empty_project_zones empty_project_regions])

section \<open>All pages of projects\<close>

text \<open>
  C8. When the provider serves the project listing in the pages \<open>pages\<close> (each request
  executes to the next page, and \<open>list_next\<close> of the last page is \<open>None\<close>) and every page
  yields its projects, \<open>get_projects\<close> returns, and what it returns is the concatenation of
  the projects of all pages in the order of the pages. A page yields the list under
  \<open>projects\<close> unchanged, and nothing when it has no such entry.
\<close>

theorem get_projects_all_pages:
  assumes "serves (execute env) (projects_list_next env) (Some (projects_list env)) pages"
    and "map page_projects pages = map Inr pss"
  shows "get_projects env = Some (Inr (concat pss))
    \<and> (\<forall>kvs ps. map_of kvs ''projects'' = Some (JList ps) \<longrightarrow> page_projects (JObj kvs) = Inr ps)
    \<and> (\<forall>kvs. map_of kvs ''projects'' = None \<longrightarrow> page_projects (JObj kvs) = Inr [])"
  using get_projects_serves[OF assms] by (simp add: page_projects_present page_projects_absent)

text \<open>
  Two pages, of one and of two projects.
\<close>

theorem get_projects_all_pages_witness:
  "get_projects paged =
     Some (Inr [JObj [(''projectId'', JStr ''alpha'')], JObj [(''projectId'', JStr ''beta'')],
                JObj [(''projectId'', JStr ''gamma'')]])"
proof -
  have "map page_projects [projects_page [''alpha''], projects_page [''beta'', ''gamma'']]
        = map Inr [[JObj [(''projectId'', JStr ''alpha'')]],
                   [JObj [(''projectId'', JStr ''beta'')], JObj [(''projectId'', JStr ''gamma'')]]]"
    by (simp add: projects_page_def page_projects_present)
  from get_projects_all_pages[OF paged_projects this] show ?thesis by simp
qed

section \<open>The users field of disks and addresses\<close>




section \<open>A SQL listing without items\<close>

text \<open>
  C10. When the SQL client is built and the SQL listing of a project is an object without
  an \<open>items\<close> entry, \<open>list_sql_instances\<close> returns \<open>None\<close> and \<open>sql_instance_report\<close>
  prints its banner and then raises a TypeError, from iterating over \<open>None\<close>. The compute
  report prints nothing and goes on for an instance, disk or address listing without an
  \<open>items\<close> entry, and the Memorystore report prints its banner only and returns for a
  listing without instances.
\<close>

theorem sql_instance_report_without_items:
  assumes "discovery_build env ''sqladmin'' ''v1beta4'' = Inr ()"
    and "sql_instances_list env project = Inr (JObj kvs)"
    and "map_of kvs ''items'' = None"
  shows "list_sql_instances env project = Inr JNull
    \<and> sql_instance_report env project = Some ([''==== SQL Engine ====''], Inl TypeError)
    \<and> (\<forall>zone kvs'. instances_list env project zone = Inr (JObj kvs') \<and> map_of kvs' ''items'' = None \<longrightarrow>
          io_bind (io_pure (list_instances env project zone)) (print_rows instance_row)
            = Some ([], Inr ()))
    \<and> (\<forall>zone kvs'. disks_list env project zone = Inr (JObj kvs') \<and> map_of kvs' ''items'' = None \<longrightarrow>
          io_bind (io_pure (list_disks env project zone)) (print_rows disk_row)
            = Some ([], Inr ()))
    \<and> (\<forall>region kvs'. addresses_list env project region = Inr (JObj kvs') \<and> map_of kvs' ''items'' = None \<longrightarrow>
          io_bind (io_pure (list_addresses env project region)) (print_rows address_row)
            = Some ([], Inr ()))
    \<and> (redis_client env = Inr () \<and> redis_list_instances env project = Inr ([], None) \<longrightarrow>
          redis_instance_report env project = Some ([''==== Memorystore ====''], Inr ()))"
proof -
  have l: "list_sql_instances env project = Inr JNull"
    using assms(2,3) by (simp add: list_sql_instances_def bind_e_def items_or_none_absent)
  have r: "sql_instance_report env project = Some ([''==== SQL Engine ====''], Inl TypeError)"
    by (simp add: sql_instance_report_list[OF assms(1) l] for_in_def io_bind_pure_Inl)
  have i: "io_bind (io_pure (list_instances env project zone)) (print_rows instance_row)
            = Some ([], Inr ())"
    if "instances_list env project zone = Inr (JObj kvs') \<and> map_of kvs' ''items'' = None"
    for zone kvs'
    using that
    by (simp add: list_instances_def bind_e_def items_or_none_absent io_bind_pure_Inr print_rows_none)
  have d: "io_bind (io_pure (list_disks env project zone)) (print_rows disk_row)
            = Some ([], Inr ())"
    if "disks_list env project zone = Inr (JObj kvs') \<and> map_of kvs' ''items'' = None"
    for zone kvs'
    using that
    by (simp add: list_disks_def bind_e_def items_or_none_absent io_bind_pure_Inr print_rows_none)
  have a: "io_bind (io_pure (list_addresses env project region)) (print_rows address_row)
            = Some ([], Inr ())"
    if "addresses_list env project region = Inr (JObj kvs') \<and> map_of kvs' ''items'' = None"
    for region kvs'
    using that
    by (simp add: list_addresses_def bind_e_def items_or_none_absent io_bind_pure_Inr print_rows_none)
  have c: "redis_instance_report env project = Some ([''==== Memorystore ====''], Inr ())"
    if "redis_client env = Inr () \<and> redis_list_instances env project = Inr ([], None)"
    using that by (simp add: redis_report_of_listing)
  from l r i d a c show ?thesis by blast
qed

text \<open>
  The scenario has such a SQL listing, an instance listing without items in zone
  \<open>eu-a\<close>, and no Memorystore instance.
\<close>

theorem sql_instance_report_without_items_witness:
  "list_sql_instances scenario (JStr ''demo'') = Inr JNull
   \<and> sql_instance_report scenario (JStr ''demo'') = Some ([''==== SQL Engine ====''], Inl TypeError)
   \<and> io_bind (io_pure (list_instances scenario (JStr ''demo'') (JStr ''eu-a'')))
        (print_rows instance_row) = Some ([], Inr ())
   \<and> redis_instance_report scenario (JStr ''demo'') = Some ([''==== Memorystore ====''], Inr ())"
  using sql_instance_report_without_items
    [of scenario "JStr ''demo''" "[(''kind'', JStr ''sql#instancesList'')]"]
  by (simp add: scenario_def scenario_instances_def)

end
